theory Spec2Isabelle
  imports Complex_Main
begin

section \<open>JavaScript values used by the maintenance module\<close>

subsection \<open>Numbers rendered as text: \<open>Number.prototype.toFixed\<close> and \<open>parseFloat\<close>\<close>

text \<open>
  The byte counters reported by the store are integers far below \<open>2 ^ 48\<close>. Dividing such a
  double by \<open>1024 * 1024\<close> or by \<open>512\<close>, subtracting it from \<open>512\<close> and multiplying it by
  \<open>100\<close> are all exact in IEEE double arithmetic, so the numbers handled by \<open>getStats\<close> are
  modelled as exact rationals. \<open>toFixed\<close> follows ECMAScript: the sign is split off, the
  magnitude is scaled by \<open>10 ^ f\<close> and rounded to the nearest integer, the larger one on a
  tie, and the digits are padded with zeros and cut by the decimal point. (The branch for
  magnitudes of \<open>10 ^ 21\<close> and more, which switches to exponent notation, is out of reach
  here.)
\<close>

definition digit_char :: "nat \<Rightarrow> char" where
  "digit_char d = ''0123456789'' ! d"

fun digits :: "nat \<Rightarrow> string" where
  "digits n = (if n < 10 then [digit_char n] else digits (n div 10) @ [digit_char (n mod 10)])"

declare digits.simps [simp del]

definition toFixed :: "nat \<Rightarrow> rat \<Rightarrow> string" where
  "toFixed f x =
     (let s = (if x < 0 then ''-'' else '''');
          n = nat \<lfloor>\<bar>x\<bar> * 10 ^ f + 1 / 2\<rfloor>;
          m = digits n;
          m' = (if f \<noteq> 0
                then (let mz = (if length m \<le> f then replicate (f + 1 - length m) (CHR ''0'') @ m else m);
                          k = length mz
                      in take (k - f) mz @ ''.'' @ drop (k - f) mz)
                else m)
      in s @ m')"

text \<open>
  \<open>parseFloat\<close> on the decimal literals that \<open>toFixed\<close> produces: leading blanks, an optional
  sign, integer digits and an optional fraction; \<open>None\<close> stands for \<open>NaN\<close>. (Exponents and
  \<open>Infinity\<close> are not modelled.) The nearest double of a two-decimal literal compares with
  the integers 350, 400 and 450 exactly as the literal's rational value does, so the parsed
  value is kept as a rational.
\<close>

definition is_digit :: "char \<Rightarrow> bool" where
  "is_digit c = (c \<in> set ''0123456789'')"

definition digit_val :: "char \<Rightarrow> nat" where
  "digit_val c = of_char c - 48"

definition digits_val :: "string \<Rightarrow> nat" where
  "digits_val ds = foldl (\<lambda>a c. 10 * a + digit_val c) 0 ds"

definition parseFloat :: "string \<Rightarrow> rat option" where
  "parseFloat str =
     (let s1 = dropWhile (\<lambda>c. c = CHR '' '') str;
          neg = (case s1 of [] \<Rightarrow> False | c # _ \<Rightarrow> c = CHR ''-'');
          s2 = (case s1 of [] \<Rightarrow> [] | c # r \<Rightarrow> if c = CHR ''-'' \<or> c = CHR ''+'' then r else s1);
          ip = takeWhile is_digit s2;
          rest = dropWhile is_digit s2;
          fp = (case rest of [] \<Rightarrow> [] | c # r \<Rightarrow> if c = CHR ''.'' then takeWhile is_digit r else []);
          v = of_nat (digits_val ip) + of_nat (digits_val fp) / 10 ^ length fp
      in if ip = [] \<and> fp = [] then None else Some (if neg then - v else v))"

text \<open>A comparison \<open>x > c\<close> of JavaScript numbers; every comparison with \<open>NaN\<close> is false.\<close>

definition js_gt :: "rat option \<Rightarrow> rat \<Rightarrow> bool" where
  "js_gt x c = (case x of None \<Rightarrow> False | Some v \<Rightarrow> v > c)"

subsection \<open>Dates\<close>

text \<open>
  A \<open>Date\<close> is its time value, the milliseconds since the epoch, read from the clock by
  \<open>new Date()\<close> and \<open>Date.now()\<close>. Following ECMAScript, \<open>DateFromTime t\<close> is the day number
  of \<open>t\<close> minus the day number of the first day of its month, plus one, and
  \<open>MakeDay (YearFromTime t) (MonthFromTime t) dt\<close> is the day number of that first day plus
  \<open>dt - 1\<close>; \<open>monthStart\<close> computes the first day of the month in the proleptic Gregorian
  calendar. \<open>getDate\<close> and \<open>setDate\<close>, defined below with the environment, work on local
  time.
\<close>

definition msPerDay :: int where
  "msPerDay = 86400000"

definition msPerHour :: int where
  "msPerHour = 3600000"

definition Day :: "int \<Rightarrow> int" where
  "Day t = t div msPerDay"

definition TimeWithinDay :: "int \<Rightarrow> int" where
  "TimeWithinDay t = t mod msPerDay"

definition MakeDate :: "int \<Rightarrow> int \<Rightarrow> int" where
  "MakeDate day time = day * msPerDay + time"

definition monthStart :: "int \<Rightarrow> int" where
  "monthStart d =
     (let z = d + 719468;
          doe = z mod 146097;
          yoe = (doe - doe div 1460 + doe div 36524 - doe div 146096) div 365;
          doy = doe - (365 * yoe + yoe div 4 - yoe div 100);
          mp = (5 * doy + 2) div 153;
          dom = doy - (153 * mp + 2) div 5 + 1
      in d - (dom - 1))"

definition DateFromTime :: "int \<Rightarrow> int" where
  "DateFromTime t = Day t - monthStart (Day t) + 1"

definition MakeDayInMonth :: "int \<Rightarrow> int \<Rightarrow> int" where
  "MakeDayInMonth t dt = monthStart (Day t) + dt - 1"

section \<open>Data model\<close>

text \<open>A reservation document (\<open>models/reservation.js\<close>); \<open>oid\<close> is the store's \<open>_id\<close>.\<close>

record reservation =
  oid :: nat
  name :: string
  phone :: string
  branch :: string
  time :: string
  status :: string
  otp :: "string option"
  cancellationReason :: "string option"
  createdAt :: int

text \<open>An archive document: the fields of the reservation and the provenance added on archival.\<close>

record archive_doc = reservation +
  archivedAt :: int
  archiveReason :: string
  originalCollection :: string

text \<open>The byte counters of \<open>db.stats()\<close> and the snapshot \<open>getStats\<close> derives from them.\<close>

record db_stats =
  dataSize :: nat
  storageSize :: nat
  indexSize :: nat

record stats_snapshot =
  sizeInMB :: string
  storageInMB :: string
  indexSizeInMB :: string
  freeStorageMB :: string
  usagePercentage :: string

record alert_flags =
  warning :: bool
  critical :: bool
  emergency :: bool

record health_report = stats_snapshot +
  alerts :: alert_flags

text \<open>A thrown JavaScript error, with its \<open>message\<close>.\<close>

datatype js_error = JsError (errorName: string) (message: string)

definition MissingSchemaError :: "string \<Rightarrow> js_error" where
  \<open>MissingSchemaError nm =
     JsError ''MissingSchemaError''
       (''Schema hasn't been registered for model "'' @ nm @ ''".\<newline>Use mongoose.model(name, schema)'')\<close>

record response =
  ok :: bool
  statusText :: string

record mail =
  mail_from :: "string option"
  mail_to :: "string option"
  mail_subject :: string
  mail_html :: string

record webhook_post =
  post_url :: string
  embed_title :: string
  embed_description :: string
  embed_color :: nat
  embed_timestamp :: int

datatype channel = Email | Webhook

text \<open>
  What a run does to the outside world, in order. \<open>Notify\<close>, \<open>Called\<close>, \<open>Settled\<close> and
  \<open>NotifySettled\<close> record the calls of the notification functions and the settling of the
  promises they return; the others are the calls of \<open>transporter.sendMail\<close>, \<open>fetch\<close> and
  the console.
\<close>

datatype event =
    Notify string string bool
  | Called channel
  | SendMail mail
  | Fetch webhook_post
  | Settled channel
  | NotifySettled
  | ConsoleLog string
  | ConsoleError string js_error

text \<open>
  The environment of a run: the models registered with mongoose, the outcome of
  \<open>db.stats()\<close>, for the \<open>n\<close>-th store operation the error it throws (if any), the
  successive readings of the clock, the local time zone (its standard offset from UTC and
  the instants at which daylight saving is in force), the process environment, the outcome
  of the \<open>n\<close>-th mail and of the \<open>n\<close>-th webhook request, and for the \<open>n\<close>-th notification
  which of the two pending deliveries settles first.
\<close>

record env =
  models :: "string list"
  dbStats :: "js_error + db_stats"
  storeFault :: "nat \<Rightarrow> js_error option"
  clock :: "nat \<Rightarrow> int"
  tzOffset :: int
  daylightSaving :: "int \<Rightarrow> bool"
  DISCORD_WEBHOOK_URL :: "string option"
  EMAIL_USER :: "string option"
  ADMIN_EMAIL :: "string option"
  mailResult :: "nat \<Rightarrow> js_error option"
  fetchResult :: "nat \<Rightarrow> js_error + response"
  mailSettlesFirst :: "nat \<Rightarrow> bool"

record state =
  reservations :: "reservation list"
  archives :: "archive_doc list"
  storeOps :: nat
  clockReads :: nat
  mailCount :: nat
  fetchCount :: nat
  notifyCount :: nat
  trace :: "event list"

section \<open>Computations: state passing with exceptions\<close>

type_synonym 'a io = "state \<Rightarrow> (js_error + 'a) \<times> state"

definition ret :: "'a \<Rightarrow> 'a io" where
  "ret x s = (Inr x, s)"

definition throw :: "js_error \<Rightarrow> 'a io" where
  "throw e s = (Inl e, s)"

definition bind :: "'a io \<Rightarrow> ('a \<Rightarrow> 'b io) \<Rightarrow> 'b io" where
  "bind m f s = (case m s of (Inl e, s') \<Rightarrow> (Inl e, s') | (Inr x, s') \<Rightarrow> f x s')"

definition try_catch :: "'a io \<Rightarrow> (js_error \<Rightarrow> 'a io) \<Rightarrow> 'a io" where
  "try_catch m h s = (case m s of (Inl e, s') \<Rightarrow> h e s' | (Inr x, s') \<Rightarrow> (Inr x, s'))"

fun mapM :: "('a \<Rightarrow> 'b io) \<Rightarrow> 'a list \<Rightarrow> 'b list io" where
  "mapM f [] = ret []"
| "mapM f (x # xs) = bind (f x) (\<lambda>y. bind (mapM f xs) (\<lambda>ys. ret (y # ys)))"

definition emit :: "event \<Rightarrow> unit io" where
  "emit e s = (Inr (), s\<lparr>trace := trace s @ [e]\<rparr>)"

definition newDate :: "env \<Rightarrow> int io" where
  "newDate E s = (Inr (clock E (clockReads s)), s\<lparr>clockReads := Suc (clockReads s)\<rparr>)"

text \<open>
  Local time, as ECMAScript 5.1 defines it: the standard offset of the zone plus the
  daylight saving adjustment in force, which is taken to be one hour. \<open>UTC\<close> converts a
  local time back with the adjustment in force at that local time, so \<open>setDate\<close> keeps the
  wall-clock time of day and lands on the instant that shows it on the new date.
\<close>

definition DaylightSavingTA :: "env \<Rightarrow> int \<Rightarrow> int" where
  "DaylightSavingTA E t = (if daylightSaving E t then msPerHour else 0)"

definition LocalTime :: "env \<Rightarrow> int \<Rightarrow> int" where
  "LocalTime E t = t + tzOffset E + DaylightSavingTA E t"

definition UTC :: "env \<Rightarrow> int \<Rightarrow> int" where
  "UTC E t = t - tzOffset E - DaylightSavingTA E (t - tzOffset E)"

definition getDate :: "env \<Rightarrow> int \<Rightarrow> int" where
  "getDate E t = DateFromTime (LocalTime E t)"

definition setDate :: "env \<Rightarrow> int \<Rightarrow> int \<Rightarrow> int" where
  "setDate E t dt =
     UTC E (MakeDate (MakeDayInMonth (LocalTime E t) dt) (TimeWithinDay (LocalTime E t)))"

section \<open>The store, as mongoose presents it\<close>

text \<open>
  \<open>mongoose.model(name)\<close>, called with a name only, returns the registered model and throws
  \<open>MissingSchemaError\<close> when none is registered under that name.
\<close>

definition model :: "env \<Rightarrow> string \<Rightarrow> unit io" where
  "model E nm = (if nm \<in> set (models E) then ret () else throw (MissingSchemaError nm))"

text \<open>Every operation sent to the store may fail with the error the environment prescribes.\<close>

definition store_call :: "env \<Rightarrow> unit io" where
  "store_call E s =
     (case storeFault E (storeOps s) of
        None \<Rightarrow> (Inr (), s\<lparr>storeOps := Suc (storeOps s)\<rparr>)
      | Some e \<Rightarrow> (Inl e, s\<lparr>storeOps := Suc (storeOps s)\<rparr>))"

text \<open>
  \<open>mongoose.model('Reservation').deleteMany(q)\<close> and \<open>.find(q)\<close>; a query document is the
  predicate it denotes. \<open>deleteMany\<close> yields \<open>deletedCount\<close>.
\<close>

definition deleteMany :: "env \<Rightarrow> (reservation \<Rightarrow> bool) \<Rightarrow> nat io" where
  "deleteMany E q =
     bind (model E ''Reservation'') (\<lambda>_.
     bind (store_call E) (\<lambda>_ s.
       (Inr (length (filter q (reservations s))),
        s\<lparr>reservations := filter (\<lambda>r. \<not> q r) (reservations s)\<rparr>)))"

definition find_many :: "env \<Rightarrow> (reservation \<Rightarrow> bool) \<Rightarrow> reservation list io" where
  "find_many E q =
     bind (model E ''Reservation'') (\<lambda>_.
     bind (store_call E) (\<lambda>_ s. (Inr (filter q (reservations s)), s)))"

definition insertMany :: "env \<Rightarrow> archive_doc list \<Rightarrow> unit io" where
  "insertMany E docs =
     bind (store_call E) (\<lambda>_ s. (Inr (), s\<lparr>archives := archives s @ docs\<rparr>))"

definition db_stats_call :: "env \<Rightarrow> db_stats io" where
  "db_stats_call E = (case dbStats E of Inl e \<Rightarrow> throw e | Inr st \<Rightarrow> ret st)"

section \<open>NotificationManager\<close>

text \<open>
  An \<open>async\<close> function runs synchronously up to its first \<open>await\<close> and is resumed when the
  awaited promise settles. \<open>sendEmail\<close> and \<open>sendDiscordWebhook\<close> each await one promise, so
  each is split at that point: \<open>_begin\<close> is the part before the \<open>await\<close> and yields the index
  of the pending request, \<open>_finish\<close> is the rest, inside the function's \<open>try\<close>/\<open>catch\<close>.
\<close>

definition mail_html_of :: "string \<Rightarrow> string \<Rightarrow> string" where
  \<open>mail_html_of subject msg =
     ''\<newline>          <div style="font-family: Arial, sans-serif; padding: 20px;">'' @
     ''\<newline>            <h2 style="color: #e11d48;">XNDoughs Database Alert</h2>'' @
     ''\<newline>            <div style="background-color: #f3f4f6; padding: 15px; border-radius: 5px;">'' @
     ''\<newline>              <p><strong>'' @ subject @ ''</strong></p>'' @
     ''\<newline>              <p>'' @ msg @ ''</p>'' @
     ''\<newline>            </div>'' @
     ''\<newline>            <p style="color: #6b7280; font-size: 0.875rem; margin-top: 20px;">'' @
     ''\<newline>              This is an automated message from your XNDoughs Database Management System'' @
     ''\<newline>            </p>'' @
     ''\<newline>          </div>'' @
     ''\<newline>        ''\<close>

definition sendEmail_begin :: "env \<Rightarrow> string \<Rightarrow> string \<Rightarrow> nat io" where
  "sendEmail_begin E subject msg =
     bind (emit (Called Email)) (\<lambda>_.
     bind (emit (SendMail \<lparr>mail_from = EMAIL_USER E, mail_to = ADMIN_EMAIL E,
                           mail_subject = ''XNDoughs Alert: '' @ subject,
                           mail_html = mail_html_of subject msg\<rparr>)) (\<lambda>_ s.
       (Inr (mailCount s), s\<lparr>mailCount := Suc (mailCount s)\<rparr>)))"

definition await_mail :: "env \<Rightarrow> nat \<Rightarrow> unit io" where
  "await_mail E k = (case mailResult E k of None \<Rightarrow> ret () | Some e \<Rightarrow> throw e)"

definition sendEmail_finish :: "env \<Rightarrow> nat \<Rightarrow> unit io" where
  "sendEmail_finish E k =
     bind (try_catch
             (bind (await_mail E k) (\<lambda>_. emit (ConsoleLog ''Alert email sent successfully'')))
             (\<lambda>error. emit (ConsoleError ''Error sending alert email:'' error)))
          (\<lambda>_. emit (Settled Email))"

definition sendEmail :: "env \<Rightarrow> string \<Rightarrow> string \<Rightarrow> unit io" where
  "sendEmail E subject msg = bind (sendEmail_begin E subject msg) (sendEmail_finish E)"

text \<open>\<open>!process.env.DISCORD_WEBHOOK_URL\<close>: an unset variable and an empty one are both falsy.\<close>

definition webhook_url :: "env \<Rightarrow> string" where
  "webhook_url E = (case DISCORD_WEBHOOK_URL E of None \<Rightarrow> [] | Some u \<Rightarrow> u)"

definition webhook_unconfigured :: "env \<Rightarrow> bool" where
  "webhook_unconfigured E = (webhook_url E = [])"

definition sendDiscordWebhook_begin :: "env \<Rightarrow> string \<Rightarrow> string \<Rightarrow> bool \<Rightarrow> nat option io" where
  "sendDiscordWebhook_begin E title msg isError =
     bind (emit (Called Webhook)) (\<lambda>_.
     if webhook_unconfigured E then bind (emit (Settled Webhook)) (\<lambda>_. ret None)
     else
       bind (newDate E) (\<lambda>t.
       bind (emit (Fetch \<lparr>post_url = webhook_url E, embed_title = title,
                          embed_description = msg,
                          embed_color = (if isError then 15158332 else 3066993),
                          embed_timestamp = t\<rparr>)) (\<lambda>_ s.
         (Inr (Some (fetchCount s)), s\<lparr>fetchCount := Suc (fetchCount s)\<rparr>))))"

definition await_fetch :: "env \<Rightarrow> nat \<Rightarrow> response io" where
  "await_fetch E k = (case fetchResult E k of Inl e \<Rightarrow> throw e | Inr r \<Rightarrow> ret r)"

definition sendDiscordWebhook_finish :: "env \<Rightarrow> nat \<Rightarrow> unit io" where
  "sendDiscordWebhook_finish E k =
     bind (try_catch
             (bind (await_fetch E k) (\<lambda>resp.
                if \<not> ok resp
                then throw (JsError ''Error'' (''Discord webhook failed: '' @ statusText resp))
                else ret ()))
             (\<lambda>error. emit (ConsoleError ''Error sending Discord webhook:'' error)))
          (\<lambda>_. emit (Settled Webhook))"

definition sendDiscordWebhook :: "env \<Rightarrow> string \<Rightarrow> string \<Rightarrow> bool \<Rightarrow> unit io" where
  "sendDiscordWebhook E title msg isError =
     bind (sendDiscordWebhook_begin E title msg isError) (\<lambda>p.
     case p of None \<Rightarrow> ret () | Some k \<Rightarrow> sendDiscordWebhook_finish E k)"

text \<open>
  \<open>notify\<close> builds the array for \<open>Promise.all\<close> by calling \<open>sendEmail\<close> and then
  \<open>sendDiscordWebhook\<close>, each of which runs to its \<open>await\<close>; the two pending requests then
  settle in the order the environment chooses, and the promise of \<open>Promise.all\<close> settles
  after both.
\<close>

definition notify :: "env \<Rightarrow> string \<Rightarrow> string \<Rightarrow> bool \<Rightarrow> unit io" where
  "notify E subject msg isError =
     bind (emit (Notify subject msg isError)) (\<lambda>_.
     bind (\<lambda>s. (Inr (notifyCount s), s\<lparr>notifyCount := Suc (notifyCount s)\<rparr>)) (\<lambda>n.
     bind (sendEmail_begin E subject msg) (\<lambda>k.
     bind (sendDiscordWebhook_begin E subject msg isError) (\<lambda>p.
     bind (case p of
             None \<Rightarrow> sendEmail_finish E k
           | Some j \<Rightarrow>
               if mailSettlesFirst E n
               then bind (sendEmail_finish E k) (\<lambda>_. sendDiscordWebhook_finish E j)
               else bind (sendDiscordWebhook_finish E j) (\<lambda>_. sendEmail_finish E k)) (\<lambda>_.
     emit NotifySettled)))))"

section \<open>DatabaseManager\<close>

text \<open>
  \<open>databaseManager.js\<close> reaches the notification functions through
  \<open>require('./notificationManager')\<close>. The file of the class \<open>NotificationManager\<close> ends
  with the class and assigns nothing to \<open>module.exports\<close>, so \<open>require\<close> yields the empty
  object: its property \<open>notify\<close> is undefined, and every call
  \<open>NotificationManager.notify(...)\<close> in this module throws \<open>TypeError\<close> once its arguments
  are evaluated.
\<close>

definition notify_TypeError :: js_error where
  "notify_TypeError = JsError ''TypeError'' ''NotificationManager.notify is not a function''"

definition exported_notify :: "(env \<Rightarrow> string \<Rightarrow> string \<Rightarrow> bool \<Rightarrow> unit io) option" where
  "exported_notify = None"

definition NotificationManager_notify :: "env \<Rightarrow> string \<Rightarrow> string \<Rightarrow> bool \<Rightarrow> unit io" where
  "NotificationManager_notify E subject msg isError =
     (case exported_notify of
        None \<Rightarrow> throw notify_TypeError
      | Some f \<Rightarrow> f E subject msg isError)"

definition MB :: "nat \<Rightarrow> rat" where
  "MB bytes = of_nat bytes / (1024 * 1024)"

definition getStats :: "env \<Rightarrow> stats_snapshot option io" where
  "getStats E =
     try_catch
       (bind (db_stats_call E) (\<lambda>stats.
          ret (Some \<lparr>sizeInMB = toFixed 2 (MB (dataSize stats)),
                     storageInMB = toFixed 2 (MB (storageSize stats)),
                     indexSizeInMB = toFixed 2 (MB (indexSize stats)),
                     freeStorageMB = toFixed 2 (512 - MB (storageSize stats)),
                     usagePercentage = toFixed 1 (MB (storageSize stats) / 512 * 100)\<rparr>)))
       (\<lambda>error. bind (emit (ConsoleError ''Error getting database stats:'' error)) (\<lambda>_. ret None))"

text \<open>The two query documents of the cleanup.\<close>

definition old_query :: "int \<Rightarrow> reservation \<Rightarrow> bool" where
  "old_query thirtyDaysAgo r =
     (createdAt r < thirtyDaysAgo \<and> status r \<in> set [''confirmed'', ''cancelled''])"

definition abandoned_query :: "int \<Rightarrow> reservation \<Rightarrow> bool" where
  "abandoned_query oneDayAgo r = (createdAt r < oneDayAgo \<and> status r = ''pending'')"

definition cleanup_try :: "env \<Rightarrow> nat io" where
  "cleanup_try E =
     bind (newDate E) (\<lambda>d.
     let thirtyDaysAgo = setDate E d (getDate E d - 30) in
     bind (deleteMany E (old_query thirtyDaysAgo)) (\<lambda>result.
     bind (newDate E) (\<lambda>now.
     let oneDayAgo = now - 24 * 60 * 60 * 1000 in
     bind (deleteMany E (abandoned_query oneDayAgo)) (\<lambda>abandonedResult.
     let totalDeleted = result + abandonedResult in
     bind (if totalDeleted > 0
           then NotificationManager_notify E ''Cleanup Completed''
                  (''Cleaned up '' @ digits result @ '' old reservations and '' @
                   digits abandonedResult @ '' abandoned pending reservations.'') False
           else ret ()) (\<lambda>_.
     ret totalDeleted)))))"

definition cleanupOldReservations :: "env \<Rightarrow> nat io" where
  "cleanupOldReservations E =
     try_catch (cleanup_try E)
       (\<lambda>error.
          bind (emit (ConsoleError ''Error during cleanup:'' error)) (\<lambda>_.
          bind (NotificationManager_notify E ''Cleanup Failed'' (''Error during cleanup: '' @ message error) True) (\<lambda>_.
          ret 0)))"

definition archive_copy :: "env \<Rightarrow> reservation \<Rightarrow> archive_doc io" where
  "archive_copy E res =
     bind (newDate E) (\<lambda>t.
     ret (reservation.extend res
            \<lparr>archivedAt = t, archiveReason = ''age'', originalCollection = ''reservations''\<rparr>))"

text \<open>
  In \<open>mongoose.model('Archive') || mongoose.model('Archive', schema)\<close> the left operand either
  returns the registered model, which is truthy, or throws; the right operand is never
  evaluated.
\<close>

definition archive_try :: "env \<Rightarrow> nat io" where
  "archive_try E =
     bind (newDate E) (\<lambda>d.
     let sixtyDaysAgo = setDate E d (getDate E d - 60) in
     bind (find_many E (\<lambda>r. createdAt r < sixtyDaysAgo)) (\<lambda>reservationsToArchive.
     if length reservationsToArchive > 0
     then
       bind (model E ''Archive'') (\<lambda>_.
       bind (mapM (archive_copy E) reservationsToArchive) (\<lambda>archiveData.
       bind (insertMany E archiveData) (\<lambda>_.
       bind (deleteMany E (\<lambda>r. oid r \<in> set (map oid reservationsToArchive))) (\<lambda>_.
       bind (NotificationManager_notify E ''Archiving Completed''
               (''Archived '' @ digits (length reservationsToArchive) @
                '' old reservations successfully.'') False) (\<lambda>_.
       ret (length reservationsToArchive))))))
     else ret 0))"

definition archiveReservations :: "env \<Rightarrow> nat io" where
  "archiveReservations E =
     try_catch (archive_try E)
       (\<lambda>error.
          bind (emit (ConsoleError ''Error during archiving:'' error)) (\<lambda>_.
          bind (NotificationManager_notify E ''Archiving Failed'' (''Error during archiving: '' @ message error) True) (\<lambda>_.
          ret 0)))"

definition WARNING_THRESHOLD :: rat where
  "WARNING_THRESHOLD = 350"

definition CRITICAL_THRESHOLD :: rat where
  "CRITICAL_THRESHOLD = 400"

definition EMERGENCY_THRESHOLD :: rat where
  "EMERGENCY_THRESHOLD = 450"

definition health_message :: "stats_snapshot \<Rightarrow> string" where
  "health_message stats =
     ''\<newline>Database Storage Alert\<newline>\<newline>Current Usage: '' @ storageInMB stats @ ''MB of 512MB'' @
     ''\<newline>Usage Percentage: '' @ usagePercentage stats @ ''%'' @
     ''\<newline>Free Space: '' @ freeStorageMB stats @ ''MB'' @
     ''\<newline>Index Size: '' @ indexSizeInMB stats @ ''MB'' @
     ''\<newline>\<newline>Automatic Cleanup:'' @
     ''\<newline>- Daily cleanup of orders older than 30 days'' @
     ''\<newline>- Weekly archiving of data older than 60 days'' @
     ''\<newline>- Immediate cleanup of abandoned pending orders (24h+)\<newline>''"

definition monitor_try :: "env \<Rightarrow> health_report option io" where
  "monitor_try E =
     bind (getStats E) (\<lambda>stats_opt.
     case stats_opt of
       None \<Rightarrow> ret None
     | Some stats \<Rightarrow>
         let storageUsed = parseFloat (storageInMB stats);
             msg = health_message stats
         in bind (if js_gt storageUsed EMERGENCY_THRESHOLD
                  then bind (NotificationManager_notify E ''EMERGENCY: Database Near Capacity''
                               (msg @ ''\<newline>\<newline>URGENT: Database is nearing free tier limit. Emergency cleanup initiated.'')
                               True) (\<lambda>_.
                       bind (cleanupOldReservations E) (\<lambda>_.
                       bind (archiveReservations E) (\<lambda>_. ret ())))
                  else if js_gt storageUsed CRITICAL_THRESHOLD
                  then NotificationManager_notify E ''CRITICAL: High Database Usage''
                         (msg @ ''\<newline>\<newline>Action Required: Please review and clean up unnecessary data.'')
                         True
                  else if js_gt storageUsed WARNING_THRESHOLD
                  then NotificationManager_notify E ''WARNING: Database Usage Alert''
                         (msg @ ''\<newline>\<newline>Consider cleaning up old data to prevent reaching limits.'')
                         False
                  else ret ()) (\<lambda>_.
            ret (Some (stats_snapshot.extend stats
                         \<lparr>alerts = \<lparr>warning = js_gt storageUsed WARNING_THRESHOLD,
                                     critical = js_gt storageUsed CRITICAL_THRESHOLD,
                                     emergency = js_gt storageUsed EMERGENCY_THRESHOLD\<rparr>\<rparr>))))"

text \<open>\<open>monitorHealth\<close> yields \<open>None\<close> where the source returns \<open>undefined\<close>.\<close>

definition monitorHealth :: "env \<Rightarrow> health_report option io" where
  "monitorHealth E =
     try_catch (monitor_try E)
       (\<lambda>error.
          bind (emit (ConsoleError ''Error monitoring database health:'' error)) (\<lambda>_.
          bind (NotificationManager_notify E ''Monitoring Error''
                  (''Error during health monitoring: '' @ message error) True) (\<lambda>_.
          ret None)))"

text \<open>The notifications a trace holds, in order, and the requests sent to the webhook.\<close>

fun notification_of :: "event \<Rightarrow> (string \<times> string \<times> bool) list" where
  "notification_of (Notify subject msg isError) = [(subject, msg, isError)]"
| "notification_of _ = []"

definition notifications :: "event list \<Rightarrow> (string \<times> string \<times> bool) list" where
  "notifications evs = concat (map notification_of evs)"

fun is_Fetch :: "event \<Rightarrow> bool" where
  "is_Fetch (Fetch _) = True"
| "is_Fetch _ = False"


text \<open>
  The events one notification adds to the trace: what the console shows when the mail and
  the webhook request settle, and the whole sequence in the order of \<open>notify\<close>.
\<close>

definition mail_log :: "env \<Rightarrow> nat \<Rightarrow> event list" where
  "mail_log E k =
     (case mailResult E k of
        None \<Rightarrow> [ConsoleLog ''Alert email sent successfully'']
      | Some e \<Rightarrow> [ConsoleError ''Error sending alert email:'' e])"

definition fetch_log :: "env \<Rightarrow> nat \<Rightarrow> event list" where
  "fetch_log E j =
     (case fetchResult E j of
        Inl e \<Rightarrow> [ConsoleError ''Error sending Discord webhook:'' e]
      | Inr resp \<Rightarrow>
          if ok resp then []
          else [ConsoleError ''Error sending Discord webhook:''
                  (JsError ''Error'' (''Discord webhook failed: '' @ statusText resp))])"

definition mail_of :: "env \<Rightarrow> string \<Rightarrow> string \<Rightarrow> mail" where
  "mail_of E subject msg =
     \<lparr>mail_from = EMAIL_USER E, mail_to = ADMIN_EMAIL E,
      mail_subject = ''XNDoughs Alert: '' @ subject, mail_html = mail_html_of subject msg\<rparr>"

definition post_of :: "env \<Rightarrow> string \<Rightarrow> string \<Rightarrow> bool \<Rightarrow> int \<Rightarrow> webhook_post" where
  "post_of E title msg isError t =
     \<lparr>post_url = webhook_url E, embed_title = title, embed_description = msg,
      embed_color = (if isError then 15158332 else 3066993), embed_timestamp = t\<rparr>"

definition notify_events :: "env \<Rightarrow> string \<Rightarrow> string \<Rightarrow> bool \<Rightarrow> state \<Rightarrow> event list" where
  "notify_events E subject msg isError s =
     [Notify subject msg isError, Called Email, SendMail (mail_of E subject msg), Called Webhook] @
     (if webhook_unconfigured E
      then [Settled Webhook] @ mail_log E (mailCount s) @ [Settled Email]
      else [Fetch (post_of E subject msg isError (clock E (clockReads s)))] @
           (if mailSettlesFirst E (notifyCount s)
            then mail_log E (mailCount s) @ [Settled Email] @
                 fetch_log E (fetchCount s) @ [Settled Webhook]
            else fetch_log E (fetchCount s) @ [Settled Webhook] @
                 mail_log E (mailCount s) @ [Settled Email])) @
     [NotifySettled]"

definition notify_state :: "env \<Rightarrow> string \<Rightarrow> string \<Rightarrow> bool \<Rightarrow> state \<Rightarrow> state" where
  "notify_state E subject msg isError s =
     (if webhook_unconfigured E
      then s\<lparr>mailCount := Suc (mailCount s), notifyCount := Suc (notifyCount s),
             trace := trace s @ notify_events E subject msg isError s\<rparr>
      else s\<lparr>clockReads := Suc (clockReads s), mailCount := Suc (mailCount s),
             fetchCount := Suc (fetchCount s), notifyCount := Suc (notifyCount s),
             trace := trace s @ notify_events E subject msg isError s\<rparr>)"

section \<open>Concrete runs and auxiliary notions\<close>

text \<open>
  An environment as the repository sets it up: the \<open>Reservation\<close> model is the only one
  registered with mongoose, the store answers every operation, the clock stands at
  \<open>example_now\<close>, the zone keeps one offset all year, no webhook is configured and mail is
  delivered.
\<close>

definition example_now :: int where
  "example_now = 1700000000000"

definition example_env :: env where
  "example_env =
     \<lparr>models = [''Reservation''],
      dbStats = Inr \<lparr>dataSize = 1048576, storageSize = 200 * 1024 * 1024, indexSize = 4096\<rparr>,
      storeFault = (\<lambda>_. None),
      clock = (\<lambda>_. example_now),
      tzOffset = 7200000,
      daylightSaving = (\<lambda>_. False),
      DISCORD_WEBHOOK_URL = None,
      EMAIL_USER = Some ''alerts@example.org'',
      ADMIN_EMAIL = Some ''admin@example.org'',
      mailResult = (\<lambda>_. None),
      fetchResult = (\<lambda>_. Inr \<lparr>ok = True, statusText = ''OK''\<rparr>),
      mailSettlesFirst = (\<lambda>_. True)\<rparr>"

definition example_reservation :: "nat \<Rightarrow> string \<Rightarrow> int \<Rightarrow> reservation" where
  "example_reservation i st t =
     \<lparr>oid = i, name = ''Test User'', phone = ''96170123456'', branch = ''Clemenceau'',
      time = ''8:00 PM'', status = st, otp = None, cancellationReason = None, createdAt = t\<rparr>"

definition example_state :: "reservation list \<Rightarrow> state" where
  "example_state rs =
     \<lparr>reservations = rs, archives = [], storeOps = 0, clockReads = 0, mailCount = 0,
      fetchCount = 0, notifyCount = 0, trace = []\<rparr>"

text \<open>
  Reservations of different ages at \<open>example_now\<close>: confirmed 31 days ago, pending 10 hours
  ago, confirmed 10 hours ago, confirmed exactly 30 days ago, pending 25 hours ago.
\<close>

definition res_31d_confirmed :: reservation where
  "res_31d_confirmed = example_reservation 1 ''confirmed'' (example_now - 31 * msPerDay)"

definition res_10h_pending :: reservation where
  "res_10h_pending = example_reservation 2 ''pending'' (example_now - 10 * 60 * 60 * 1000)"

definition res_10h_confirmed :: reservation where
  "res_10h_confirmed = example_reservation 3 ''confirmed'' (example_now - 10 * 60 * 60 * 1000)"

definition res_30d_confirmed :: reservation where
  "res_30d_confirmed = example_reservation 4 ''confirmed'' (example_now - 30 * msPerDay)"

definition res_25h_pending :: reservation where
  "res_25h_pending = example_reservation 5 ''pending'' (example_now - 25 * 60 * 60 * 1000)"

definition example_store :: state where
  "example_store =
     example_state [res_31d_confirmed, res_10h_pending, res_10h_confirmed,
                    res_30d_confirmed, res_25h_pending]"

text \<open>A store whose every operation fails with a network error.\<close>

definition example_error :: js_error where
  "example_error = JsError ''MongoNetworkError'' ''connection timed out''"

definition failing_env :: env where
  "failing_env = example_env\<lparr>storeFault := (\<lambda>_. Some example_error)\<rparr>"

text \<open>
  \<open>stamp E n rs\<close> are the archive copies of \<open>rs\<close>, made at the clock readings from the
  \<open>n\<close>-th on.
\<close>

fun stamp :: "env \<Rightarrow> nat \<Rightarrow> reservation list \<Rightarrow> archive_doc list" where
  "stamp E n [] = []"
| "stamp E n (r # rs) =
     reservation.extend r
       \<lparr>archivedAt = clock E n, archiveReason = ''age'', originalCollection = ''reservations''\<rparr>
     # stamp E (Suc n) rs"

text \<open>A reservation old enough for the archive, and a registry that has an \<open>Archive\<close> model.\<close>

definition res_61d_confirmed :: reservation where
  "res_61d_confirmed = example_reservation 6 ''confirmed'' (example_now - 61 * msPerDay)"

definition archive_env :: env where
  "archive_env = example_env\<lparr>models := [''Reservation'', ''Archive'']\<rparr>"

text \<open>
  The rounding \<open>toFixed\<close> performs, as a number: \<open>f\<close> decimals, nearest, ties away from
  zero.
\<close>

definition round_to :: "nat \<Rightarrow> rat \<Rightarrow> rat" where
  "round_to f x =
     (if x < 0 then - of_int \<lfloor>- x * 10 ^ f + 1 / 2\<rfloor> else of_int \<lfloor>x * 10 ^ f + 1 / 2\<rfloor>) / 10 ^ f"

text \<open>
  The snapshot \<open>getStats\<close> computes from the byte counters.
\<close>

definition snapshot_of :: "db_stats \<Rightarrow> stats_snapshot" where
  "snapshot_of st =
     \<lparr>sizeInMB = toFixed 2 (MB (dataSize st)),
      storageInMB = toFixed 2 (MB (storageSize st)),
      indexSizeInMB = toFixed 2 (MB (indexSize st)),
      freeStorageMB = toFixed 2 (512 - MB (storageSize st)),
      usagePercentage = toFixed 1 (MB (storageSize st) / 512 * 100)\<rparr>"

text \<open>
  Claim C6 as worded: the free space and the usage percentage derived from the
  \<open>storageInMB\<close> of the snapshot, which is the two-decimal text.
\<close>

definition spec_freeStorageMB :: "string \<Rightarrow> string" where
  "spec_freeStorageMB storage_in_mb =
     (case parseFloat storage_in_mb of None \<Rightarrow> ''NaN'' | Some v \<Rightarrow> toFixed 2 (512 - v))"

definition spec_usagePercentage :: "string \<Rightarrow> string" where
  "spec_usagePercentage storage_in_mb =
     (case parseFloat storage_in_mb of None \<Rightarrow> ''NaN'' | Some v \<Rightarrow> toFixed 1 (v / 512 * 100))"

text \<open>Stores of 128 KiB, of 784 KiB and of 460 MiB.\<close>

definition env_128k :: env where
  "env_128k = example_env\<lparr>dbStats := Inr \<lparr>dataSize = 0, storageSize = 131072, indexSize = 0\<rparr>\<rparr>"

definition env_784k :: env where
  "env_784k = example_env\<lparr>dbStats := Inr \<lparr>dataSize = 0, storageSize = 802816, indexSize = 0\<rparr>\<rparr>"

definition env_460m :: env where
  "env_460m =
     example_env\<lparr>dbStats := Inr \<lparr>dataSize = 0, storageSize = 460 * 1024 * 1024, indexSize = 0\<rparr>\<rparr>"

text \<open>
  The shift of \<open>setDate\<close> against whole days: the daylight saving adjustment at \<open>t\<close> minus
  the one in force \<open>k\<close> calendar days later at the same wall-clock time.
\<close>

definition dst_shift :: "env \<Rightarrow> int \<Rightarrow> int \<Rightarrow> int" where
  "dst_shift E t k =
     DaylightSavingTA E t - DaylightSavingTA E (t + DaylightSavingTA E t + k * msPerDay)"







section \<open>Properties\<close>

subsection \<open>Date arithmetic\<close>

text \<open>
  Setting the day of the month to the current one plus \<open>k\<close> moves the instant by \<open>k\<close> whole
  days, whatever the month lengths in between, and by one hour more or less when daylight
  saving is in force at only one of the two instants.
\<close>

lemma setDate_getDate: "setDate E t (getDate E t + k) = t + k * msPerDay + dst_shift E t k"
proof -
  let ?lt = "LocalTime E t"
  have "MakeDayInMonth ?lt (DateFromTime ?lt + k) = Day ?lt + k"
    by (simp add: MakeDayInMonth_def DateFromTime_def)
  moreover have "MakeDate (Day ?lt + k) (TimeWithinDay ?lt) = ?lt + k * msPerDay"
    by (simp add: MakeDate_def Day_def TimeWithinDay_def algebra_simps)
  ultimately have "setDate E t (getDate E t + k) = UTC E (?lt + k * msPerDay)"
    by (simp add: setDate_def getDate_def)
  also have "\<dots> = t + k * msPerDay + dst_shift E t k"
    by (simp add: UTC_def LocalTime_def dst_shift_def algebra_simps)
  finally show ?thesis .
qed

lemma dst_shift_bounds: "- msPerHour \<le> dst_shift E t k \<and> dst_shift E t k \<le> msPerHour"
  by (simp add: dst_shift_def DaylightSavingTA_def msPerHour_def)


lemma thirtyDaysAgo_eq:
  "setDate E t (getDate E t - 30) = t - 30 * msPerDay + dst_shift E t (- 30)"
  using setDate_getDate [of E t "- 30"] by simp

lemma sixtyDaysAgo_eq:
  "setDate E t (getDate E t - 60) = t - 60 * msPerDay + dst_shift E t (- 60)"
  using setDate_getDate [of E t "- 60"] by simp

subsection \<open>The notification functions in closed form\<close>

lemmas io_defs = bind_def ret_def throw_def try_catch_def emit_def



lemma sendDiscordWebhook_begin_eq:
  "sendDiscordWebhook_begin E title msg isError s =
     (if webhook_unconfigured E
      then (Inr None, s\<lparr>trace := trace s @ [Called Webhook, Settled Webhook]\<rparr>)
      else (Inr (Some (fetchCount s)),
            s\<lparr>clockReads := Suc (clockReads s), fetchCount := Suc (fetchCount s),
              trace := trace s @
                [Called Webhook, Fetch (post_of E title msg isError (clock E (clockReads s)))]\<rparr>))"
  by (simp add: sendDiscordWebhook_begin_def post_of_def newDate_def io_defs)





lemma notify_state_frame [simp]:
  "reservations (notify_state E subject msg isError s) = reservations s"
  "archives (notify_state E subject msg isError s) = archives s"
  "storeOps (notify_state E subject msg isError s) = storeOps s"
  "trace (notify_state E subject msg isError s) = trace s @ notify_events E subject msg isError s"
  by (simp_all add: notify_state_def)

lemma notifications_append [simp]:
  "notifications (xs @ ys) = notifications xs @ notifications ys"
  by (simp add: notifications_def)

lemma notifications_Nil [simp]: "notifications [] = []"
  by (simp add: notifications_def)

subsection \<open>Notification sink\<close>


text \<open>
  Claim C9. When the webhook URL is not configured (the variable is unset or empty),
  \<open>sendDiscordWebhook\<close> returns normally for every title, message and \<open>isError\<close>, and issues
  no request: the trace only gains the call and the return of the function itself.
\<close>

theorem sendDiscordWebhook_unconfigured_noop:
  assumes "webhook_unconfigured E"
  shows "sendDiscordWebhook E title msg isError s =
           (Inr (), s\<lparr>trace := trace s @ [Called Webhook, Settled Webhook]\<rparr>)
         \<and> filter is_Fetch (trace (snd (sendDiscordWebhook E title msg isError s)))
             = filter is_Fetch (trace s)
         \<and> fetchCount (snd (sendDiscordWebhook E title msg isError s)) = fetchCount s"
  using assms by (simp add: sendDiscordWebhook_def sendDiscordWebhook_begin_eq bind_def ret_def)

theorem sendDiscordWebhook_unconfigured_noop_witness:
  "webhook_unconfigured example_env
   \<and> fst (sendDiscordWebhook example_env ''Cleanup Failed'' ''Error during cleanup: timeout'' True
            (example_state [])) = Inr ()
   \<and> filter is_Fetch
        (trace (snd (sendDiscordWebhook example_env ''Cleanup Failed''
                       ''Error during cleanup: timeout'' True (example_state [])))) = []"
proof -
  have u: "webhook_unconfigured example_env"
    by (simp add: webhook_unconfigured_def webhook_url_def example_env_def)
  show ?thesis
    using u sendDiscordWebhook_unconfigured_noop [OF u, of "''Cleanup Failed''"
        "''Error during cleanup: timeout''" True "example_state []"]
    by (simp add: example_state_def)
qed

lemma notifications_Cons [simp]:
  "notifications (x # xs) = notification_of x @ notifications xs"
  by (simp add: notifications_def)

subsection \<open>The store operations and the notification call in closed form\<close>

lemma model_eq:
  "model E nm s = (if nm \<in> set (models E) then (Inr (), s) else (Inl (MissingSchemaError nm), s))"
  by (simp add: model_def ret_def throw_def)

lemma deleteMany_eq:
  "deleteMany E q s =
     (if ''Reservation'' \<in> set (models E)
      then (case storeFault E (storeOps s) of
              None \<Rightarrow> (Inr (length (filter q (reservations s))),
                        s\<lparr>reservations := filter (\<lambda>r. \<not> q r) (reservations s),
                          storeOps := Suc (storeOps s)\<rparr>)
            | Some e \<Rightarrow> (Inl e, s\<lparr>storeOps := Suc (storeOps s)\<rparr>))
      else (Inl (MissingSchemaError ''Reservation''), s))"
  by (simp add: deleteMany_def model_eq bind_def store_call_def split: option.splits)

lemma find_many_eq:
  "find_many E q s =
     (if ''Reservation'' \<in> set (models E)
      then (case storeFault E (storeOps s) of
              None \<Rightarrow> (Inr (filter q (reservations s)), s\<lparr>storeOps := Suc (storeOps s)\<rparr>)
            | Some e \<Rightarrow> (Inl e, s\<lparr>storeOps := Suc (storeOps s)\<rparr>))
      else (Inl (MissingSchemaError ''Reservation''), s))"
  by (simp add: find_many_def model_eq bind_def store_call_def split: option.splits)

lemma NotificationManager_notify_eq:
  "NotificationManager_notify E subject msg isError s = (Inl notify_TypeError, s)"
  by (simp add: NotificationManager_notify_def exported_notify_def throw_def)

subsection \<open>Cleanup: which reservations go\<close>

text \<open>
  A cleanup that meets no store error: the store it leaves, the value it yields and what
  it adds to the trace. When something was deleted, the call of
  \<open>NotificationManager.notify\<close> throws, the \<open>catch\<close> block logs the error and calls
  \<open>NotificationManager.notify\<close> again, and that second \<open>TypeError\<close> leaves the function.
\<close>

lemma cleanup_try_ok:
  assumes reg: "''Reservation'' \<in> set (models E)"
    and f0: "storeFault E (storeOps s) = None"
    and f1: "storeFault E (Suc (storeOps s)) = None"
  shows "\<exists>s2. cleanup_try E s =
           (if filter (\<lambda>r. old_query (clock E (clockReads s) - 30 * msPerDay
                                          + dst_shift E (clock E (clockReads s)) (- 30)) r
                            \<or> abandoned_query (clock E (Suc (clockReads s)) - 24 * 60 * 60 * 1000) r)
                 (reservations s) = []
            then Inr 0 else Inl notify_TypeError, s2)
         \<and> reservations s2 =
             filter (\<lambda>r. \<not> old_query (clock E (clockReads s) - 30 * msPerDay
                                          + dst_shift E (clock E (clockReads s)) (- 30)) r
                          \<and> \<not> abandoned_query (clock E (Suc (clockReads s)) - 24 * 60 * 60 * 1000) r)
               (reservations s)
         \<and> archives s2 = archives s \<and> trace s2 = trace s"
  using reg f0 f1
  by (auto simp: cleanup_try_def bind_def newDate_def thirtyDaysAgo_eq deleteMany_eq
      NotificationManager_notify_eq ret_def Let_def filter_empty_conv)

lemma cleanup_catch:
  assumes "cleanup_try E s = (Inl e, s1)"
  shows "cleanupOldReservations E s =
           (Inl notify_TypeError, s1\<lparr>trace := trace s1 @ [ConsoleError ''Error during cleanup:'' e]\<rparr>)"
  using assms
  by (simp add: cleanupOldReservations_def try_catch_def bind_def emit_def
      NotificationManager_notify_eq)

lemma cleanup_no_catch:
  assumes "cleanup_try E s = (Inr n, s1)"
  shows "cleanupOldReservations E s = (Inr n, s1)"
  using assms by (simp add: cleanupOldReservations_def try_catch_def)

lemma cleanup_ok:
  assumes "''Reservation'' \<in> set (models E)"
    and "storeFault E (storeOps s) = None"
    and "storeFault E (Suc (storeOps s)) = None"
  shows "reservations (snd (cleanupOldReservations E s)) =
           filter (\<lambda>r. \<not> old_query (clock E (clockReads s) - 30 * msPerDay
                                        + dst_shift E (clock E (clockReads s)) (- 30)) r
                        \<and> \<not> abandoned_query (clock E (Suc (clockReads s)) - 24 * 60 * 60 * 1000) r)
             (reservations s)"
    and "fst (cleanupOldReservations E s) =
           (if filter (\<lambda>r. old_query (clock E (clockReads s) - 30 * msPerDay
                                          + dst_shift E (clock E (clockReads s)) (- 30)) r
                            \<or> abandoned_query (clock E (Suc (clockReads s)) - 24 * 60 * 60 * 1000) r)
                 (reservations s) = []
            then Inr 0 else Inl notify_TypeError)"
    and "trace (snd (cleanupOldReservations E s)) =
           trace s @
           (if filter (\<lambda>r. old_query (clock E (clockReads s) - 30 * msPerDay
                                          + dst_shift E (clock E (clockReads s)) (- 30)) r
                            \<or> abandoned_query (clock E (Suc (clockReads s)) - 24 * 60 * 60 * 1000) r)
                 (reservations s) = []
            then [] else [ConsoleError ''Error during cleanup:'' notify_TypeError])"
proof -
  let ?none = "filter (\<lambda>r. old_query (clock E (clockReads s) - 30 * msPerDay
                                          + dst_shift E (clock E (clockReads s)) (- 30)) r
                            \<or> abandoned_query (clock E (Suc (clockReads s)) - 24 * 60 * 60 * 1000) r)
                 (reservations s) = []"
  obtain s2 where s2: "cleanup_try E s = (if ?none then Inr 0 else Inl notify_TypeError, s2)"
      "reservations s2 =
         filter (\<lambda>r. \<not> old_query (clock E (clockReads s) - 30 * msPerDay
                                      + dst_shift E (clock E (clockReads s)) (- 30)) r
                      \<and> \<not> abandoned_query (clock E (Suc (clockReads s)) - 24 * 60 * 60 * 1000) r)
           (reservations s)"
      "trace s2 = trace s"
    using cleanup_try_ok [OF assms] by blast
  have "cleanupOldReservations E s =
          (if ?none then (Inr 0, s2)
           else (Inl notify_TypeError,
                 s2\<lparr>trace := trace s2 @ [ConsoleError ''Error during cleanup:'' notify_TypeError]\<rparr>))"
  proof (cases ?none)
    case True
    with s2(1) show ?thesis
      by (simp add: cleanup_no_catch)
  next
    case False
    with s2(1) show ?thesis
      by (simp add: cleanup_catch)
  qed
  with s2(2,3) show
    "reservations (snd (cleanupOldReservations E s)) =
           filter (\<lambda>r. \<not> old_query (clock E (clockReads s) - 30 * msPerDay
                                        + dst_shift E (clock E (clockReads s)) (- 30)) r
                        \<and> \<not> abandoned_query (clock E (Suc (clockReads s)) - 24 * 60 * 60 * 1000) r)
             (reservations s)"
    "fst (cleanupOldReservations E s) = (if ?none then Inr 0 else Inl notify_TypeError)"
    "trace (snd (cleanupOldReservations E s)) =
       trace s @ (if ?none then [] else [ConsoleError ''Error during cleanup:'' notify_TypeError])"
    by simp_all
qed

lemmas cleanup_ok_store = cleanup_ok(1)

lemmas example_defs =
  example_env_def example_store_def example_state_def example_reservation_def example_now_def
  res_31d_confirmed_def res_10h_pending_def res_10h_confirmed_def res_30d_confirmed_def
  res_25h_pending_def msPerDay_def old_query_def abandoned_query_def

lemma example_env_ok:
  "''Reservation'' \<in> set (models example_env)"
  "storeFault example_env n = None"
  "clock example_env n = example_now"
  "dst_shift example_env t k = 0"
  by (simp_all add: example_env_def dst_shift_def DaylightSavingTA_def)







text \<open>
  Claim C5, as stated, has a pending reservation created 10 hours before the cleanup
  deleted. It is younger than 24 hours and stays in the store.
\<close>

theorem cleanup_scenario_counterexample:
  "status res_10h_pending = ''pending''
   \<and> createdAt res_10h_pending
       = clock example_env (Suc (clockReads example_store)) - 10 * 60 * 60 * 1000
   \<and> res_10h_pending \<in> set (reservations example_store)
   \<and> res_10h_pending \<in> set (reservations (snd (cleanupOldReservations example_env example_store)))"
  by (simp add: cleanup_ok_store example_env_ok) (simp add: example_defs)

text \<open>
  Claim C5, amended. In one cleanup that meets no store error, a confirmed reservation
  created 31 days before is deleted, a pending reservation created 10 hours before is
  retained (the pending rule asks for more than 24 hours), and a confirmed reservation
  created 10 hours before is retained.
\<close>

theorem cleanup_scenario:
  assumes "''Reservation'' \<in> set (models E)"
    and "storeFault E (storeOps s) = None"
    and "storeFault E (Suc (storeOps s)) = None"
    and "a \<in> set (reservations s)" and "status a = ''confirmed''"
    and "createdAt a = clock E (clockReads s) - 31 * msPerDay"
    and "b \<in> set (reservations s)" and "status b = ''pending''"
    and "createdAt b = clock E (Suc (clockReads s)) - 10 * 60 * 60 * 1000"
    and "c \<in> set (reservations s)" and "status c = ''confirmed''"
    and "createdAt c = clock E (clockReads s) - 10 * 60 * 60 * 1000"
  shows "a \<notin> set (reservations (snd (cleanupOldReservations E s)))
       \<and> b \<in> set (reservations (snd (cleanupOldReservations E s)))
       \<and> c \<in> set (reservations (snd (cleanupOldReservations E s)))"
  using assms(4-12) dst_shift_bounds [of E "clock E (clockReads s)" "- 30"]
  by (simp add: cleanup_ok_store [OF assms(1-3)] old_query_def abandoned_query_def msPerDay_def
      msPerHour_def)

theorem cleanup_scenario_witness:
  "res_31d_confirmed \<notin> set (reservations (snd (cleanupOldReservations example_env example_store)))
   \<and> res_10h_pending \<in> set (reservations (snd (cleanupOldReservations example_env example_store)))
   \<and> res_10h_confirmed \<in> set (reservations (snd (cleanupOldReservations example_env example_store)))"
proof -
  have h: "''Reservation'' \<in> set (models example_env)"
      "storeFault example_env (storeOps example_store) = None"
      "storeFault example_env (Suc (storeOps example_store)) = None"
    by (simp_all add: example_env_ok)
  have a: "res_31d_confirmed \<in> set (reservations example_store)"
      "status res_31d_confirmed = ''confirmed''"
      "createdAt res_31d_confirmed = clock example_env (clockReads example_store) - 31 * msPerDay"
    and b: "res_10h_pending \<in> set (reservations example_store)"
      "status res_10h_pending = ''pending''"
      "createdAt res_10h_pending
         = clock example_env (Suc (clockReads example_store)) - 10 * 60 * 60 * 1000"
    and c: "res_10h_confirmed \<in> set (reservations example_store)"
      "status res_10h_confirmed = ''confirmed''"
      "createdAt res_10h_confirmed
         = clock example_env (clockReads example_store) - 10 * 60 * 60 * 1000"
    by (simp_all add: example_defs)
  show ?thesis
    by (rule cleanup_scenario [OF h a b c])
qed

text \<open>
  Claim C10 has the notification \<open>Cleanup Completed\<close> emitted whenever something was
  deleted. In the repository the call that should emit it throws \<open>TypeError\<close>, and so
  does the call in the \<open>catch\<close> block: a cleanup that deletes two reservations rejects,
  having logged the error, and no notification is emitted. (A cleanup that deletes nothing
  returns \<open>0\<close> and adds nothing to the trace, as lemma \<open>cleanup_ok\<close> shows.)
\<close>

theorem cleanup_rejects_after_deleting:
  "fst (cleanupOldReservations example_env example_store) = Inl notify_TypeError
   \<and> reservations (snd (cleanupOldReservations example_env example_store))
       = [res_10h_pending, res_10h_confirmed, res_30d_confirmed]
   \<and> trace (snd (cleanupOldReservations example_env example_store))
       = [ConsoleError ''Error during cleanup:'' notify_TypeError]
   \<and> notifications (trace (snd (cleanupOldReservations example_env example_store))) = []"
  by (simp add: cleanup_ok example_env_ok) (simp add: example_defs)

subsection \<open>Errors in the maintenance operations\<close>

lemma store_fault_raises_in_cleanup:
  assumes "''Reservation'' \<in> set (models E)"
    and "storeFault E (storeOps s) = Some e
         \<or> storeFault E (storeOps s) = None \<and> storeFault E (Suc (storeOps s)) = Some e"
  shows "\<exists>s1. cleanup_try E s = (Inl e, s1) \<and> trace s1 = trace s"
  using assms
  by (auto simp: cleanup_try_def bind_def newDate_def deleteMany_eq Let_def)

text \<open>Whatever the \<open>try\<close> block of the cleanup raises, the caller receives \<open>TypeError\<close>.\<close>

lemma cleanup_error_rejects:
  assumes "cleanup_try E s = (Inl e, s1)"
  shows "fst (cleanupOldReservations E s) = Inl notify_TypeError"
    and "notifications (trace (snd (cleanupOldReservations E s))) = notifications (trace s1)"
  by (simp_all add: cleanup_catch [OF assms])

subsection \<open>Archival\<close>

lemma archive_copy_eq:
  "archive_copy E r s =
     (Inr (reservation.extend r
             \<lparr>archivedAt = clock E (clockReads s), archiveReason = ''age'',
              originalCollection = ''reservations''\<rparr>),
      s\<lparr>clockReads := Suc (clockReads s)\<rparr>)"
  by (simp add: archive_copy_def bind_def newDate_def ret_def)

lemma mapM_archive_copy:
  "mapM (archive_copy E) xs s =
     (Inr (stamp E (clockReads s) xs), s\<lparr>clockReads := clockReads s + length xs\<rparr>)"
proof (induction xs arbitrary: s)
  case Nil
  show ?case by (simp add: ret_def)
next
  case (Cons x xs)
  have "mapM (archive_copy E) (x # xs) s =
          (case mapM (archive_copy E) xs (s\<lparr>clockReads := Suc (clockReads s)\<rparr>) of
             (Inl e, s') \<Rightarrow> (Inl e, s')
           | (Inr ys, s') \<Rightarrow>
               (Inr (reservation.extend x
                       \<lparr>archivedAt = clock E (clockReads s), archiveReason = ''age'',
                        originalCollection = ''reservations''\<rparr> # ys), s'))"
    apply (simp only: mapM.simps bind_def)
    apply (subst archive_copy_eq)
    apply (simp only: prod.case sum.case ret_def)
    done
  then show ?case
    by (simp only: Cons.IH) simp
qed

lemma archive_catch:
  assumes "archive_try E s = (Inl e, s1)"
  shows "archiveReservations E s =
           (Inl notify_TypeError, s1\<lparr>trace := trace s1 @ [ConsoleError ''Error during archiving:'' e]\<rparr>)"
  using assms
  by (simp add: archiveReservations_def try_catch_def bind_def emit_def
      NotificationManager_notify_eq)

lemma archive_no_catch:
  assumes "archive_try E s = (Inr n, s1)"
  shows "archiveReservations E s = (Inr n, s1)"
  using assms by (simp add: archiveReservations_def try_catch_def)

lemma store_fault_raises_in_archive:
  assumes "''Reservation'' \<in> set (models E)" and "storeFault E (storeOps s) = Some e"
  shows "\<exists>s1. archive_try E s = (Inl e, s1) \<and> trace s1 = trace s"
  using assms by (simp add: archive_try_def bind_def newDate_def find_many_eq Let_def)

text \<open>
  Without a registered \<open>Archive\<close> model a non-empty selection ends in
  \<open>MissingSchemaError\<close>, before anything is copied or deleted.
\<close>

lemma archive_try_missing_schema:
  assumes "''Reservation'' \<in> set (models E)" and "''Archive'' \<notin> set (models E)"
    and "storeFault E (storeOps s) = None"
    and "filter (\<lambda>r. createdAt r < clock E (clockReads s) - 60 * msPerDay
                                      + dst_shift E (clock E (clockReads s)) (- 60))
           (reservations s) \<noteq> []"
  shows "archive_try E s =
           (Inl (MissingSchemaError ''Archive''),
            s\<lparr>clockReads := Suc (clockReads s), storeOps := Suc (storeOps s)\<rparr>)"
  using assms
  by (simp add: archive_try_def bind_def newDate_def find_many_eq model_eq sixtyDaysAgo_eq Let_def)

text \<open>
  Claim C2 describes an archival that copies and deletes. The repository registers no
  \<open>Archive\<close> model, and \<open>mongoose.model('Archive')\<close> then throws before the fallback
  after \<open>||\<close> is reached, so a run with one reservation created 61 days ago ends in the
  \<open>catch\<close> block with nothing inserted into the archive and the reservation still in the
  primary store. The \<open>catch\<close> block logs the error; its call of
  \<open>NotificationManager.notify\<close> throws \<open>TypeError\<close>, so the archival rejects instead of
  returning, and no notification is emitted.
\<close>

theorem archive_fails_without_registered_model:
  "createdAt res_61d_confirmed < clock example_env 0 - 60 * msPerDay
   \<and> fst (archiveReservations example_env (example_state [res_61d_confirmed]))
       = Inl notify_TypeError
   \<and> reservations (snd (archiveReservations example_env (example_state [res_61d_confirmed])))
       = [res_61d_confirmed]
   \<and> archives (snd (archiveReservations example_env (example_state [res_61d_confirmed]))) = []
   \<and> trace (snd (archiveReservations example_env (example_state [res_61d_confirmed])))
       = [ConsoleError ''Error during archiving:'' (MissingSchemaError ''Archive'')]
   \<and> notifications (trace (snd (archiveReservations example_env (example_state [res_61d_confirmed]))))
       = []"
proof -
  let ?s = "example_state [res_61d_confirmed]"
  have old: "createdAt res_61d_confirmed < clock example_env 0 - 60 * msPerDay"
    by (simp add: res_61d_confirmed_def example_defs)
  have sel: "filter (\<lambda>r. createdAt r < clock example_env (clockReads ?s) - 60 * msPerDay
                                        + dst_shift example_env (clock example_env (clockReads ?s)) (- 60))
               (reservations ?s) \<noteq> []"
    using old by (simp add: example_state_def example_env_ok)
  have reg: "''Reservation'' \<in> set (models example_env)" "''Archive'' \<notin> set (models example_env)"
    by (simp_all add: example_env_def)
  have "archive_try example_env ?s =
          (Inl (MissingSchemaError ''Archive''),
           ?s\<lparr>clockReads := Suc (clockReads ?s), storeOps := Suc (storeOps ?s)\<rparr>)"
    by (rule archive_try_missing_schema [OF reg _ sel]) (simp add: example_env_ok)
  then show ?thesis
    using old by (simp add: archive_catch example_state_def)
qed

text \<open>
  With an \<open>Archive\<close> model registered, a store that answers and distinct identifiers, the
  archival does copy every reservation older than 60 calendar days, once, with the
  provenance fields, and deletes exactly those from the primary store. It returns \<open>0\<close>
  when there is none; otherwise the call that should report \<open>Archiving Completed\<close> throws,
  and the archival rejects after the copies are made and the originals deleted.
\<close>

lemma archive_with_model:
  assumes reg: "''Reservation'' \<in> set (models E)" "''Archive'' \<in> set (models E)"
    and ok: "storeFault E (storeOps s) = None" "storeFault E (Suc (storeOps s)) = None"
      "storeFault E (Suc (Suc (storeOps s))) = None"
    and ids: "distinct (map oid (reservations s))"
  shows "fst (archiveReservations E s) =
           (if filter (\<lambda>r. createdAt r < setDate E (clock E (clockReads s))
                                            (getDate E (clock E (clockReads s)) - 60))
                 (reservations s) = []
            then Inr 0 else Inl notify_TypeError)
       \<and> archives (snd (archiveReservations E s)) =
           archives s @ stamp E (Suc (clockReads s))
             (filter (\<lambda>r. createdAt r < setDate E (clock E (clockReads s))
                                           (getDate E (clock E (clockReads s)) - 60))
                (reservations s))
       \<and> reservations (snd (archiveReservations E s)) =
           filter (\<lambda>r. \<not> createdAt r < setDate E (clock E (clockReads s))
                                           (getDate E (clock E (clockReads s)) - 60))
             (reservations s)"
proof -
  define cut where "cut = setDate E (clock E (clockReads s)) (getDate E (clock E (clockReads s)) - 60)"
  let ?old = "\<lambda>r. createdAt r < cut"
  let ?sel = "filter ?old (reservations s)"
  have inj: "inj_on oid (set (reservations s))"
    using ids by (simp add: distinct_map)
  have "oid r \<in> oid ` set ?sel \<longleftrightarrow> ?old r" if "r \<in> set (reservations s)" for r
    using that inj by (auto simp: inj_on_def)
  then have del: "filter (\<lambda>r. oid r \<notin> oid ` set ?sel) (reservations s)
                  = filter (\<lambda>r. \<not> ?old r) (reservations s)"
    by (intro filter_cong) auto
  have goal: "fst (archiveReservations E s) = (if ?sel = [] then Inr 0 else Inl notify_TypeError)
       \<and> archives (snd (archiveReservations E s)) = archives s @ stamp E (Suc (clockReads s)) ?sel
       \<and> reservations (snd (archiveReservations E s)) = filter (\<lambda>r. \<not> ?old r) (reservations s)"
  proof (cases "?sel = []")
    case True
    then have "archive_try E s =
        (Inr 0, s\<lparr>clockReads := Suc (clockReads s), storeOps := Suc (storeOps s)\<rparr>)"
      using reg ok
      by (simp add: archive_try_def bind_def newDate_def find_many_eq ret_def Let_def cut_def)
    moreover have "filter (\<lambda>r. \<not> ?old r) (reservations s) = reservations s"
      using True by (simp add: filter_empty_conv)
    ultimately show ?thesis
      using True by (simp add: archive_no_catch)
  next
    case False
    then have "\<exists>s1. archive_try E s = (Inl notify_TypeError, s1)
        \<and> archives s1 = archives s @ stamp E (Suc (clockReads s)) ?sel
        \<and> reservations s1 = filter (\<lambda>r. oid r \<notin> oid ` set ?sel) (reservations s)"
      using reg ok
      by (simp add: archive_try_def bind_def newDate_def find_many_eq model_eq
          mapM_archive_copy insertMany_def store_call_def deleteMany_eq
          NotificationManager_notify_eq ret_def Let_def cut_def)
    then obtain s1 where s1: "archive_try E s = (Inl notify_TypeError, s1)"
        "archives s1 = archives s @ stamp E (Suc (clockReads s)) ?sel"
        "reservations s1 = filter (\<lambda>r. oid r \<notin> oid ` set ?sel) (reservations s)"
      by blast
    from s1(3) have "reservations s1 = filter (\<lambda>r. \<not> ?old r) (reservations s)"
      by (simp only: del)
    with s1(1,2) False show ?thesis
      by (simp add: archive_catch)
  qed
  then show ?thesis
    unfolding cut_def .
qed

text \<open>The run of claim C2 once more, in an environment that does have an \<open>Archive\<close> model.\<close>

lemma archive_with_model_example:
  "fst (archiveReservations archive_env (example_state [res_61d_confirmed, res_10h_pending]))
     = Inl notify_TypeError
   \<and> reservations (snd (archiveReservations archive_env
                           (example_state [res_61d_confirmed, res_10h_pending])))
       = [res_10h_pending]
   \<and> archives (snd (archiveReservations archive_env
                       (example_state [res_61d_confirmed, res_10h_pending])))
       = [reservation.extend res_61d_confirmed
            \<lparr>archivedAt = example_now, archiveReason = ''age'',
             originalCollection = ''reservations''\<rparr>]"
proof -
  let ?s = "example_state [res_61d_confirmed, res_10h_pending]"
  have reg: "''Reservation'' \<in> set (models archive_env)" "''Archive'' \<in> set (models archive_env)"
    and ok: "storeFault archive_env n = None" and ck: "clock archive_env n = example_now"
    and sh: "dst_shift archive_env t k = 0" for n t k
    by (simp_all add: archive_env_def example_env_def dst_shift_def DaylightSavingTA_def)
  have ids: "distinct (map oid (reservations ?s))"
    by (simp add: example_defs res_61d_confirmed_def)
  have cut: "setDate archive_env (clock archive_env (clockReads ?s))
               (getDate archive_env (clock archive_env (clockReads ?s)) - 60)
             = example_now - 60 * msPerDay"
    by (simp add: sixtyDaysAgo_eq sh ck)
  have sel: "filter (\<lambda>r. createdAt r < example_now - 60 * msPerDay) (reservations ?s)
               = [res_61d_confirmed]"
    and rest: "filter (\<lambda>r. \<not> createdAt r < example_now - 60 * msPerDay) (reservations ?s)
               = [res_10h_pending]"
    by (simp_all add: example_defs res_61d_confirmed_def)
  show ?thesis
    using archive_with_model [OF reg ok ok ok ids]
    by (simp only: cut sel rest) (simp add: ck example_state_def)
qed

text \<open>
  Claim C7 has every store error answered by the value \<open>0\<close> and a failure notification,
  with nothing raised to the caller. In the repository the \<open>catch\<close> blocks log the store
  error and then call \<open>NotificationManager.notify\<close>, which throws \<open>TypeError\<close>: against a
  store whose operations time out, both the cleanup and the archival reject with that
  \<open>TypeError\<close>, and the trace holds the console line and no notification.
\<close>

theorem maintenance_store_error_reaches_caller:
  "fst (cleanupOldReservations failing_env example_store) = Inl notify_TypeError
   \<and> trace (snd (cleanupOldReservations failing_env example_store))
       = [ConsoleError ''Error during cleanup:'' example_error]
   \<and> notifications (trace (snd (cleanupOldReservations failing_env example_store))) = []
   \<and> fst (archiveReservations failing_env example_store) = Inl notify_TypeError
   \<and> trace (snd (archiveReservations failing_env example_store))
       = [ConsoleError ''Error during archiving:'' example_error]
   \<and> notifications (trace (snd (archiveReservations failing_env example_store))) = []"
proof -
  have reg: "''Reservation'' \<in> set (models failing_env)"
    and f: "storeFault failing_env (storeOps example_store) = Some example_error"
    and t: "trace example_store = []"
    by (simp_all add: failing_env_def example_env_def example_store_def example_state_def)
  obtain s1 where c: "cleanup_try failing_env example_store = (Inl example_error, s1)"
      "trace s1 = trace example_store"
    using store_fault_raises_in_cleanup [OF reg, of example_store example_error] f by blast
  obtain s2 where a: "archive_try failing_env example_store = (Inl example_error, s2)"
      "trace s2 = trace example_store"
    using store_fault_raises_in_archive [OF reg f] by blast
  show ?thesis
    by (simp add: cleanup_catch [OF c(1)] archive_catch [OF a(1)] c(2) a(2) t)
qed

subsection \<open>Decimal text\<close>

lemma digit_char_props:
  assumes "d < 10"
  shows "digit_val (digit_char d) = d" and "is_digit (digit_char d)"
proof -
  from assms have "d \<in> {0, 1, 2, 3, 4, 5, 6, 7, 8, 9}"
    by auto
  then show "digit_val (digit_char d) = d" and "is_digit (digit_char d)"
    by (auto simp: digit_val_def digit_char_def is_digit_def)
qed

lemma is_digit_not_punct:
  "is_digit c \<Longrightarrow> c \<noteq> CHR '' '' \<and> c \<noteq> CHR ''-'' \<and> c \<noteq> CHR ''+'' \<and> c \<noteq> CHR ''.''"
  by (auto simp: is_digit_def)

lemma digits_val_snoc: "digits_val (xs @ [c]) = 10 * digits_val xs + digit_val c"
  by (simp add: digits_val_def)

lemma digits_val_append: "digits_val (xs @ ys) = digits_val xs * 10 ^ length ys + digits_val ys"
proof (induction ys rule: rev_induct)
  case Nil
  show ?case by (simp add: digits_val_def)
next
  case (snoc y ys)
  have "digits_val (xs @ ys @ [y]) = 10 * digits_val (xs @ ys) + digit_val y"
    using digits_val_snoc [of "xs @ ys" y] by simp
  then show ?case
    by (simp add: snoc.IH digits_val_snoc algebra_simps)
qed

lemma digits_val_zeros: "digits_val (replicate j (CHR ''0'')) = 0"
proof (induction j)
  case 0
  show ?case by (simp add: digits_val_def)
next
  case (Suc j)
  have "replicate (Suc j) (CHR ''0'') = replicate j (CHR ''0'') @ [CHR ''0'']"
    by (simp add: replicate_append_same)
  then show ?case
    by (simp only: digits_val_snoc Suc.IH) (simp add: digit_val_def)
qed

lemma digits_are_digits: "c \<in> set (digits n) \<Longrightarrow> is_digit c"
proof (induction n arbitrary: c rule: digits.induct)
  case (1 n)
  show ?case
  proof (cases "n < 10")
    case True
    with "1.prems" show ?thesis
      by (subst (asm) digits.simps) (simp add: digit_char_props)
  next
    case False
    with "1.prems" "1.IH" show ?thesis
      by (subst (asm) digits.simps) (auto simp: digit_char_props)
  qed
qed

lemma digits_not_Nil: "digits n \<noteq> []"
  by (subst digits.simps) simp

lemma digits_val_digits: "digits_val (digits n) = n"
proof (induction n rule: digits.induct)
  case (1 n)
  show ?case
  proof (cases "n < 10")
    case True
    then show ?thesis
      by (subst digits.simps) (simp add: digits_val_def digit_char_props)
  next
    case False
    with "1.IH" show ?thesis
      by (subst digits.simps) (simp add: digits_val_snoc digit_char_props)
  qed
qed

lemma parse_decimal:
  assumes a: "a \<noteq> []" "\<forall>c\<in>set a. is_digit c" and b: "\<forall>c\<in>set b. is_digit c"
  shows "parseFloat (a @ ''.'' @ b) =
           Some (of_nat (digits_val a) + of_nat (digits_val b) / 10 ^ length b)"
    and "parseFloat (''-'' @ a @ ''.'' @ b) =
           Some (- (of_nat (digits_val a) + of_nat (digits_val b) / 10 ^ length b))"
proof -
  obtain c a' where c: "a = c # a'" "is_digit c"
    using a by (cases a) auto
  have nd: "\<not> is_digit (CHR ''.'')"
    by (simp add: is_digit_def)
  have tw: "takeWhile is_digit (a @ CHR ''.'' # b) = a"
    using a(2) nd by (simp add: takeWhile_append2 del: takeWhile_append)
  have dw: "dropWhile is_digit (a @ CHR ''.'' # b) = CHR ''.'' # b"
    using a(2) nd by (simp add: dropWhile_append2 del: dropWhile_append)
  have tb: "takeWhile is_digit b = b"
    using b by (simp add: takeWhile_eq_all_conv)
  have s: "dropWhile (\<lambda>c. c = CHR '' '') (a @ CHR ''.'' # b) = a @ CHR ''.'' # b"
    using c is_digit_not_punct [OF c(2)] by simp
  have h: "(case a @ CHR ''.'' # b of [] \<Rightarrow> False | c # _ \<Rightarrow> c = CHR ''-'') = False"
      "(case a @ CHR ''.'' # b of [] \<Rightarrow> [] | c # r \<Rightarrow>
          if c = CHR ''-'' \<or> c = CHR ''+'' then r else a @ CHR ''.'' # b) = a @ CHR ''.'' # b"
    using c is_digit_not_punct [OF c(2)] by simp_all
  show "parseFloat (a @ ''.'' @ b) =
           Some (of_nat (digits_val a) + of_nat (digits_val b) / 10 ^ length b)"
    using a(1) by (simp add: parseFloat_def Let_def s h tw dw tb)
  show "parseFloat (''-'' @ a @ ''.'' @ b) =
           Some (- (of_nat (digits_val a) + of_nat (digits_val b) / 10 ^ length b))"
    using a(1) by (simp add: parseFloat_def Let_def tw dw tb)
qed

lemma parseFloat_toFixed:
  assumes "f \<noteq> 0"
  shows "parseFloat (toFixed f x) = Some (round_to f x)"
proof -
  define n where "n = nat \<lfloor>\<bar>x\<bar> * 10 ^ f + 1 / 2\<rfloor>"
  define mz where "mz = (if length (digits n) \<le> f
                         then replicate (f + 1 - length (digits n)) (CHR ''0'') @ digits n
                         else digits n)"
  define a where "a = take (length mz - f) mz"
  define b where "b = drop (length mz - f) mz"
  have len: "f < length mz"
    by (auto simp: mz_def)
  have dig: "\<forall>c\<in>set mz. is_digit c"
    by (auto simp: mz_def is_digit_def dest: digits_are_digits)
  have val: "digits_val mz = n"
    by (simp add: mz_def digits_val_append digits_val_zeros digits_val_digits)
  have ab: "a @ b = mz" "length b = f" "a \<noteq> []"
    using len by (auto simp: a_def b_def)
  have da: "\<forall>c\<in>set a. is_digit c" and db: "\<forall>c\<in>set b. is_digit c"
    using dig by (auto simp: a_def b_def dest: in_set_takeD in_set_dropD)
  have "of_nat (digits_val a) + of_nat (digits_val b) / 10 ^ length b
          = (of_nat (digits_val (a @ b)) :: rat) / 10 ^ length b"
    by (simp add: digits_val_append add_divide_distrib)
  then have v: "of_nat (digits_val a) + of_nat (digits_val b) / 10 ^ length b = (of_nat n :: rat) / 10 ^ f"
    by (simp add: ab val)
  have tf: "toFixed f x = (if x < 0 then ''-'' else '''') @ a @ ''.'' @ b"
    using assms by (simp add: toFixed_def Let_def n_def mz_def a_def b_def)
  have nn: "(0::int) \<le> \<lfloor>\<bar>x\<bar> * 10 ^ f + 1 / 2\<rfloor>"
    by simp
  have r: "round_to f x = (if x < 0 then - 1 else 1) * of_nat n / 10 ^ f"
    using nn by (simp add: round_to_def n_def abs_if)
  show ?thesis
  proof (cases "x < 0")
    case True
    then have "parseFloat (toFixed f x) = Some (- (of_nat n / 10 ^ f))"
      using parse_decimal(2) [OF ab(3) da db] by (simp add: tf v)
    with True r show ?thesis by simp
  next
    case False
    then have "parseFloat (toFixed f x) = Some (of_nat n / 10 ^ f)"
      using parse_decimal(1) [OF ab(3) da db] by (simp add: tf v)
    with False r show ?thesis by simp
  qed
qed

lemma round_to_close: "\<bar>round_to f x - x\<bar> \<le> 1 / (2 * 10 ^ f)"
proof -
  have key: "\<bar>of_int \<lfloor>y + 1 / 2\<rfloor> - y\<bar> \<le> 1 / 2" for y :: rat
    by linarith
  define p :: rat where "p = 10 ^ f"
  have p: "0 < p"
    by (simp add: p_def)
  have scale: "\<bar>k / p - x\<bar> = \<bar>k - x * p\<bar> / p" for k
  proof -
    have "k / p - x = (k - x * p) / p"
      using p by (simp add: field_simps)
    then show ?thesis
      using p by (simp add: abs_divide)
  qed
  show ?thesis
  proof (cases "x < 0")
    case True
    have "\<bar>round_to f x - x\<bar> = \<bar>- of_int \<lfloor>- x * p + 1 / 2\<rfloor> - x * p\<bar> / p"
      using True scale [of "- of_int \<lfloor>- x * p + 1 / 2\<rfloor>"] by (simp add: round_to_def p_def)
    also have "\<dots> = \<bar>of_int \<lfloor>- x * p + 1 / 2\<rfloor> - (- x * p)\<bar> / p"
    proof -
      have "\<bar>- a - b\<bar> = \<bar>a - (- b)\<bar>" for a b :: rat
        by linarith
      then show ?thesis
        by simp
    qed
    also have "\<dots> \<le> (1 / 2) / p"
      using key [of "- x * p"] p by (intro divide_right_mono) simp_all
    finally show ?thesis
      by (simp add: p_def)
  next
    case False
    have "\<bar>round_to f x - x\<bar> = \<bar>of_int \<lfloor>x * p + 1 / 2\<rfloor> - x * p\<bar> / p"
      using False scale [of "of_int \<lfloor>x * p + 1 / 2\<rfloor>"] by (simp add: round_to_def p_def)
    also have "\<dots> \<le> (1 / 2) / p"
      using key [of "x * p"] p by (intro divide_right_mono) simp_all
    finally show ?thesis
      by (simp add: p_def)
  qed
qed

text \<open>Evaluating \<open>toFixed\<close> once the rounded integer is known.\<close>

lemma toFixed_eval:
  assumes "\<lfloor>\<bar>x\<bar> * 10 ^ f + 1 / 2\<rfloor> = int n"
  shows "toFixed f x =
     (if x < 0 then ''-'' else '''') @
     (if f \<noteq> 0
      then (let mz = (if length (digits n) \<le> f
                      then replicate (f + 1 - length (digits n)) (CHR ''0'') @ digits n
                      else digits n)
            in take (length mz - f) mz @ ''.'' @ drop (length mz - f) mz)
      else digits n)"
  using assms by (simp add: toFixed_def Let_def)

subsection \<open>Capacity monitor\<close>

lemma getStats_eq:
  "getStats E s =
     (case dbStats E of
        Inl e \<Rightarrow> (Inr None, s\<lparr>trace := trace s @ [ConsoleError ''Error getting database stats:'' e]\<rparr>)
      | Inr st \<Rightarrow> (Inr (Some (snapshot_of st)), s))"
  by (simp add: getStats_def db_stats_call_def snapshot_of_def io_defs split: sum.splits)

lemma toFixed_200MB_percent: "toFixed 1 (MB (200 * 1024 * 1024) / 512 * 100) = ''39.1''"
  by (subst toFixed_eval [where n = 391])
     (simp_all add: MB_def floor_eq_iff digits.simps digit_char_def)

text \<open>
  Claim C6, as worded, derives \<open>freeStorageMB\<close> and \<open>usagePercentage\<close> from \<open>storageInMB\<close>.
  For a store of 131072 bytes \<open>getStats\<close> reports \<open>storageInMB = "0.13"\<close> and
  \<open>freeStorageMB = "511.88"\<close>, not \<open>512 - 0.13 = 511.87\<close>; for a store of 802816 bytes it
  reports \<open>storageInMB = "0.77"\<close> and \<open>usagePercentage = "0.1"\<close>, while
  \<open>0.77 / 512 * 100\<close> rounds to \<open>0.2\<close>.
\<close>

theorem getStats_rounded_field_counterexample:
  "fst (getStats env_128k (example_state [])) =
     Inr (Some \<lparr>sizeInMB = ''0.00'', storageInMB = ''0.13'', indexSizeInMB = ''0.00'',
                freeStorageMB = ''511.88'', usagePercentage = ''0.0''\<rparr>)
   \<and> spec_freeStorageMB ''0.13'' = ''511.87''
   \<and> fst (getStats env_784k (example_state [])) =
     Inr (Some \<lparr>sizeInMB = ''0.00'', storageInMB = ''0.77'', indexSizeInMB = ''0.00'',
                freeStorageMB = ''511.23'', usagePercentage = ''0.1''\<rparr>)
   \<and> spec_usagePercentage ''0.77'' = ''0.2''"
proof -
  have z: "toFixed 2 (MB 0) = ''0.00''"
    by (subst toFixed_eval [where n = 0])
       (simp_all add: MB_def floor_eq_iff digits.simps digit_char_def)
  have a1: "toFixed 2 (MB 131072) = ''0.13''"
    by (subst toFixed_eval [where n = 13])
       (simp_all add: MB_def floor_eq_iff digits.simps digit_char_def)
  have a2: "toFixed 2 (512 - MB 131072) = ''511.88''"
    by (subst toFixed_eval [where n = 51188])
       (simp_all add: MB_def floor_eq_iff digits.simps digit_char_def)
  have a3: "toFixed 1 (MB 131072 / 512 * 100) = ''0.0''"
    by (subst toFixed_eval [where n = 0])
       (simp_all add: MB_def floor_eq_iff digits.simps digit_char_def)
  have b1: "toFixed 2 (MB 802816) = ''0.77''"
    by (subst toFixed_eval [where n = 77])
       (simp_all add: MB_def floor_eq_iff digits.simps digit_char_def)
  have b2: "toFixed 2 (512 - MB 802816) = ''511.23''"
    by (subst toFixed_eval [where n = 51123])
       (simp_all add: MB_def floor_eq_iff digits.simps digit_char_def)
  have b3: "toFixed 1 (MB 802816 / 512 * 100) = ''0.1''"
    by (subst toFixed_eval [where n = 1])
       (simp_all add: MB_def floor_eq_iff digits.simps digit_char_def)
  have p1: "parseFloat ''0.13'' = Some (13 / 100)"
    by (simp add: parseFloat_def is_digit_def digits_val_def digit_val_def)
  have p2: "parseFloat ''0.77'' = Some (77 / 100)"
    by (simp add: parseFloat_def is_digit_def digits_val_def digit_val_def)
  have s1: "toFixed 2 (512 - 13 / 100) = ''511.87''"
    by (subst toFixed_eval [where n = 51187])
       (simp_all add: floor_eq_iff digits.simps digit_char_def)
  have s2: "toFixed 1 (77 / 100 / 512 * 100) = ''0.2''"
    by (subst toFixed_eval [where n = 2])
       (simp_all add: floor_eq_iff digits.simps digit_char_def)
  have g1: "fst (getStats env_128k (example_state [])) =
              Inr (Some (snapshot_of \<lparr>dataSize = 0, storageSize = 131072, indexSize = 0\<rparr>))"
    by (simp add: getStats_eq env_128k_def)
  have g2: "fst (getStats env_784k (example_state [])) =
              Inr (Some (snapshot_of \<lparr>dataSize = 0, storageSize = 802816, indexSize = 0\<rparr>))"
    by (simp add: getStats_eq env_784k_def)
  have c1: "fst (getStats env_128k (example_state [])) =
     Inr (Some \<lparr>sizeInMB = ''0.00'', storageInMB = ''0.13'', indexSizeInMB = ''0.00'',
                freeStorageMB = ''511.88'', usagePercentage = ''0.0''\<rparr>)"
    by (simp only: g1 snapshot_of_def db_stats.select_convs z a1 a2 a3)
  have c2: "spec_freeStorageMB ''0.13'' = ''511.87''"
    by (simp only: spec_freeStorageMB_def p1 option.case s1)
  have c3: "fst (getStats env_784k (example_state [])) =
     Inr (Some \<lparr>sizeInMB = ''0.00'', storageInMB = ''0.77'', indexSizeInMB = ''0.00'',
                freeStorageMB = ''511.23'', usagePercentage = ''0.1''\<rparr>)"
    by (simp only: g2 snapshot_of_def db_stats.select_convs z b1 b2 b3)
  have c4: "spec_usagePercentage ''0.77'' = ''0.2''"
    by (simp only: spec_usagePercentage_def p2 option.case s2)
  from c1 c2 c3 c4 show ?thesis
    by (intro conjI)
qed

text \<open>
  Claim C6, amended. \<open>getStats\<close> yields \<open>null\<close> when the store cannot be read. Otherwise
  every field is computed from the byte counters themselves: the three sizes are the
  counters in megabytes with two decimals, \<open>freeStorageMB\<close> is \<open>512\<close> minus the unrounded
  storage size in megabytes, with two decimals, and \<open>usagePercentage\<close> is the unrounded
  storage size in megabytes over \<open>512\<close> times \<open>100\<close>, with one decimal. The decimal text
  reads back as the nearest number with that many decimals, at most half a unit of the
  last place from the exact value. A storage size of \<open>200 * 1024 * 1024\<close> bytes gives the
  usage percentage \<open>"39.1"\<close>.
\<close>

theorem getStats_snapshot:
  "fst (getStats E s) =
     (case dbStats E of
        Inl e \<Rightarrow> Inr None
      | Inr st \<Rightarrow>
          Inr (Some \<lparr>sizeInMB = toFixed 2 (MB (dataSize st)),
                     storageInMB = toFixed 2 (MB (storageSize st)),
                     indexSizeInMB = toFixed 2 (MB (indexSize st)),
                     freeStorageMB = toFixed 2 (512 - MB (storageSize st)),
                     usagePercentage = toFixed 1 (MB (storageSize st) / 512 * 100)\<rparr>))
   \<and> parseFloat (toFixed 2 x) = Some (round_to 2 x) \<and> \<bar>round_to 2 x - x\<bar> \<le> 1 / 200
   \<and> parseFloat (toFixed 1 x) = Some (round_to 1 x) \<and> \<bar>round_to 1 x - x\<bar> \<le> 1 / 20
   \<and> toFixed 1 (MB (200 * 1024 * 1024) / 512 * 100) = ''39.1''"
proof -
  have snap: "fst (getStats E s) =
     (case dbStats E of
        Inl e \<Rightarrow> Inr None
      | Inr st \<Rightarrow>
          Inr (Some \<lparr>sizeInMB = toFixed 2 (MB (dataSize st)),
                     storageInMB = toFixed 2 (MB (storageSize st)),
                     indexSizeInMB = toFixed 2 (MB (indexSize st)),
                     freeStorageMB = toFixed 2 (512 - MB (storageSize st)),
                     usagePercentage = toFixed 1 (MB (storageSize st) / 512 * 100)\<rparr>))"
    by (simp add: getStats_eq snapshot_of_def split: sum.splits)
  have r2: "parseFloat (toFixed 2 x) = Some (round_to 2 x)"
    and r1: "parseFloat (toFixed 1 x) = Some (round_to 1 x)"
    by (simp_all add: parseFloat_toFixed)
  have b2: "\<bar>round_to 2 x - x\<bar> \<le> 1 / 200" and b1: "\<bar>round_to 1 x - x\<bar> \<le> 1 / 20"
    using round_to_close [of 2 x] round_to_close [of 1 x] by simp_all
  from snap r2 b2 r1 b1 toFixed_200MB_percent show ?thesis
    by (intro conjI)
qed

theorem getStats_snapshot_witness:
  "\<exists>snap. fst (getStats example_env (example_state [])) = Inr (Some snap)
      \<and> usagePercentage snap = ''39.1''
      \<and> parseFloat (storageInMB snap) = Some (round_to 2 200)"
proof -
  have m: "MB (200 * 1024 * 1024) = 200"
    by (simp add: MB_def)
  have d: "dbStats example_env =
             Inr \<lparr>dataSize = 1048576, storageSize = 200 * 1024 * 1024, indexSize = 4096\<rparr>"
    by (simp add: example_env_def)
  from getStats_snapshot [of example_env "example_state []" 200]
  have "fst (getStats example_env (example_state [])) =
          Inr (Some \<lparr>sizeInMB = toFixed 2 (MB 1048576),
                     storageInMB = toFixed 2 (MB (200 * 1024 * 1024)),
                     indexSizeInMB = toFixed 2 (MB 4096),
                     freeStorageMB = toFixed 2 (512 - MB (200 * 1024 * 1024)),
                     usagePercentage = toFixed 1 (MB (200 * 1024 * 1024) / 512 * 100)\<rparr>)"
    and "parseFloat (toFixed 2 200) = Some (round_to 2 200)"
    and "toFixed 1 (MB (200 * 1024 * 1024) / 512 * 100) = ''39.1''"
    by (simp_all only: d sum.case db_stats.select_convs)
  then show ?thesis
    by (simp only: m) simp
qed

lemma storageUsed_eq:
  "parseFloat (storageInMB (snapshot_of st)) = Some (round_to 2 (MB (storageSize st)))"
  by (simp add: snapshot_of_def parseFloat_toFixed)

text \<open>
  \<open>monitorHealth\<close> in closed form, with \<open>x\<close> the two-decimal storage size. At \<open>x \<le> 350\<close> no
  notification is attempted and the report is returned with the three flags false. Above
  350 the first statement of the tier is a call of \<open>NotificationManager.notify\<close>, which
  throws; the \<open>catch\<close> block logs the error and calls \<open>NotificationManager.notify\<close> again, and
  that \<open>TypeError\<close> leaves the function.
\<close>

lemma monitorHealth_eq:
  "monitorHealth E s =
     (case dbStats E of
        Inl e \<Rightarrow> (Inr None, s\<lparr>trace := trace s @ [ConsoleError ''Error getting database stats:'' e]\<rparr>)
      | Inr st \<Rightarrow>
          if round_to 2 (MB (storageSize st)) > 350
          then (Inl notify_TypeError,
                s\<lparr>trace := trace s @
                   [ConsoleError ''Error monitoring database health:'' notify_TypeError]\<rparr>)
          else (Inr (Some (stats_snapshot.extend (snapshot_of st)
                             \<lparr>alerts = \<lparr>warning = False, critical = False, emergency = False\<rparr>\<rparr>)),
                s))"
proof (cases "dbStats E")
  case (Inl e)
  then show ?thesis
    by (simp add: monitorHealth_def monitor_try_def try_catch_def bind_def getStats_eq ret_def)
next
  case (Inr st)
  define x where "x = round_to 2 (MB (storageSize st))"
  have gt: "js_gt (parseFloat (storageInMB (snapshot_of st))) c = (x > c)" for c
    by (simp add: storageUsed_eq js_gt_def x_def)
  show ?thesis
  proof (cases "x > 350")
    case True
    then have "\<exists>s1. monitor_try E s = (Inl notify_TypeError, s1) \<and> s1 = s"
      using Inr
      by (simp add: monitor_try_def bind_def getStats_eq gt Let_def NotificationManager_notify_eq
          WARNING_THRESHOLD_def CRITICAL_THRESHOLD_def EMERGENCY_THRESHOLD_def)
    then have "monitorHealth E s =
        (Inl notify_TypeError,
         s\<lparr>trace := trace s @ [ConsoleError ''Error monitoring database health:'' notify_TypeError]\<rparr>)"
      by (auto simp: monitorHealth_def try_catch_def bind_def emit_def
          NotificationManager_notify_eq)
    with True Inr show ?thesis
      by (simp add: x_def)
  next
    case False
    then have "\<not> x > 400" "\<not> x > 450"
      by linarith+
    with False have "monitor_try E s =
        (Inr (Some (stats_snapshot.extend (snapshot_of st)
                      \<lparr>alerts = \<lparr>warning = False, critical = False, emergency = False\<rparr>\<rparr>)), s)"
      using Inr
      by (simp add: monitor_try_def bind_def getStats_eq gt Let_def ret_def
          WARNING_THRESHOLD_def CRITICAL_THRESHOLD_def EMERGENCY_THRESHOLD_def)
    with False Inr show ?thesis
      by (simp add: monitorHealth_def try_catch_def x_def)
  qed
qed

text \<open>
  Claim C3 has \<open>monitorHealth\<close> return the report with its flags, send the alert of the
  highest tier crossed and, above 450, run the cleanup and the archival. In the repository
  a store of 460 MiB, reported as \<open>storageInMB = "460.00"\<close>, makes the call reject with
  \<open>TypeError\<close>: no report is returned, no notification is emitted, and the cleanup and the
  archival are not reached (no store operation is issued and the reservations stay).
\<close>

theorem monitorHealth_rejects_in_emergency:
  "storageInMB (snapshot_of \<lparr>dataSize = 0, storageSize = 460 * 1024 * 1024, indexSize = 0\<rparr>)
     = ''460.00''
   \<and> fst (monitorHealth env_460m example_store) = Inl notify_TypeError
   \<and> trace (snd (monitorHealth env_460m example_store))
       = [ConsoleError ''Error monitoring database health:'' notify_TypeError]
   \<and> notifications (trace (snd (monitorHealth env_460m example_store))) = []
   \<and> storeOps (snd (monitorHealth env_460m example_store)) = 0
   \<and> reservations (snd (monitorHealth env_460m example_store)) = reservations example_store"
proof -
  have d: "dbStats env_460m =
             Inr \<lparr>dataSize = 0, storageSize = 460 * 1024 * 1024, indexSize = 0\<rparr>"
    by (simp add: env_460m_def)
  have x: "round_to 2 (MB (460 * 1024 * 1024)) = 460"
    by (simp add: round_to_def MB_def floor_eq_iff)
  have t: "toFixed 2 (MB (460 * 1024 * 1024)) = ''460.00''"
    by (subst toFixed_eval [where n = 46000])
       (simp_all add: MB_def floor_eq_iff digits.simps digit_char_def)
  have s: "storageInMB (snapshot_of \<lparr>dataSize = 0, storageSize = 460 * 1024 * 1024, indexSize = 0\<rparr>)
             = ''460.00''"
    by (simp only: snapshot_of_def stats_snapshot.select_convs db_stats.select_convs t)
  have m: "monitorHealth env_460m example_store =
        (Inl notify_TypeError,
         example_store\<lparr>trace := trace example_store @
            [ConsoleError ''Error monitoring database health:'' notify_TypeError]\<rparr>)"
    by (simp only: monitorHealth_eq d sum.case db_stats.select_convs x) simp
  have e: "trace example_store = []" "storeOps example_store = 0"
    by (simp_all add: example_store_def example_state_def)
  from s show ?thesis
    by (simp add: m e)
qed

end
